theory Spec2Isabelle
  imports Main "HOL-Library.DAList" "HOL-Library.Sublist"
begin

section \<open>The Python runtime the script relies on\<close>

text \<open>
  Exceptions are values. \<open>SystemExit n\<close> is what \<open>sys.exit(n)\<close> raises; the two
  exceptions \<open>main\<close> catches carry the message that \<open>e.getMessage()\<close> and
  \<open>str(e)\<close> return.
\<close>

datatype py_error =
    IndexError
  | KeyError
  | TypeError
  | ValueError
  | SystemExit int
  | SAXParseException string
  | OSError string

text \<open>
  A Python \<open>str\<close> is a \<open>string\<close>; every \<open>char\<close> stands for one code point below 256.
  \<open>NL\<close> is the one-character string \<open>'\n'\<close>.
\<close>

definition NL :: string where
  "NL = [CHR 0x0A]"

text \<open>
  The operator \<open>format % args\<close> on strings, for the one conversion the script uses,
  \<open>%s\<close> with string arguments (and the escape \<open>%%\<close>). A right operand that is not a
  tuple counts as a single argument. Too few arguments and left-over arguments both raise
  \<open>TypeError\<close>; a format that ends in \<open>%\<close> raises \<open>ValueError\<close>. Conversions other than
  \<open>%s\<close> do not occur in the script and are answered with \<open>ValueError\<close> here.
\<close>

fun py_format :: "string \<Rightarrow> string list \<Rightarrow> py_error + string" where
  "py_format [] [] = Inr []"
| "py_format [] (a # as) = Inl TypeError"
| "py_format (c # fmt) args =
    (if c \<noteq> CHR ''%'' then map_sum id ((#) c) (py_format fmt args)
     else (case fmt of
         [] \<Rightarrow> Inl ValueError
       | d # rest \<Rightarrow>
           if d = CHR ''s'' then
             (case args of
                [] \<Rightarrow> Inl TypeError
              | a # as \<Rightarrow> map_sum id ((@) a) (py_format rest as))
           else if d = CHR ''%'' then map_sum id ((#) d) (py_format rest args)
           else Inl ValueError))"

text \<open>
  \<open>str.strip()\<close> removes leading and trailing whitespace. \<open>isspace\<close> lists the code
  points below 256 for which Python's \<open>str.isspace\<close> holds: TAB, LF, VT, FF, CR, the four
  separators FS, GS, RS, US, the space, NEL and the no-break space.
\<close>

definition isspace :: "char \<Rightarrow> bool" where
  "isspace c \<longleftrightarrow>
     c \<in> set [CHR 0x09, CHR 0x0A, CHR 0x0B, CHR 0x0C, CHR 0x0D,
              CHR 0x1C, CHR 0x1D, CHR 0x1E, CHR 0x1F, CHR 0x20, CHR 0x85, CHR 0xA0]"

definition strip :: "string \<Rightarrow> string" where
  "strip s = rev (dropWhile isspace (rev (dropWhile isspace s)))"

section \<open>Colour escape sequences and colour macros\<close>

definition RED :: string where
  "RED = CHR 0x1B # ''[1;31;40m''"

definition GREEN :: string where
  "GREEN = CHR 0x1B # ''[1;32;40m''"

definition BLUE :: string where
  "BLUE = CHR 0x1B # ''[1;34;40m''"

definition WHITE :: string where
  "WHITE = CHR 0x1B # ''[0;37;40m''"

definition BLACK :: string where
  "BLACK = CHR 0x1B # ''[0;30;40m''"

definition SPACES :: string where
  "SPACES = BLACK @ ''%s'' @ WHITE"

definition STARTNAME :: string where
  "STARTNAME = RED @ ''%s '' @ WHITE"

definition ENDNAME :: string where
  "ENDNAME = RED @ ''/%s'' @ NL @ WHITE"

definition PARENSTMNT :: string where
  "PARENSTMNT = BLUE @ ''(%s = %s) '' @ WHITE"

definition ELEMENTDATA :: string where
  "ELEMENTDATA = GREEN @ ''%s '' @ WHITE"

section \<open>The content handler\<close>

text \<open>
  The three attributes of \<open>XmlContentHandler\<close>, and what the process has written to
  standard output so far. A method is a function from the state to an outcome (an
  exception or a value) and the state it leaves behind: what was written before an
  exception stays written.
\<close>

record xml_state =
  charBuffer :: string
  elementStack :: "string list"
  nLastWritePos :: int
  stdout :: string

definition initial :: xml_state where
  "initial = \<lparr>charBuffer = [], elementStack = [], nLastWritePos = 0, stdout = []\<rparr>"

type_synonym 'a action = "xml_state \<Rightarrow> (py_error + 'a) \<times> xml_state"

definition return_val :: "'a \<Rightarrow> 'a action" where
  "return_val x s = (Inr x, s)"

definition raise :: "py_error \<Rightarrow> 'a action" where
  "raise e s = (Inl e, s)"

definition evaluate :: "py_error + 'a \<Rightarrow> 'a action" where
  "evaluate r s = (r, s)"

definition and_then :: "'a action \<Rightarrow> ('a \<Rightarrow> 'b action) \<Rightarrow> 'b action" where
  "and_then m f s = (case m s of (Inl e, s') \<Rightarrow> (Inl e, s') | (Inr x, s') \<Rightarrow> f x s')"

definition sys_stdout_write :: "string \<Rightarrow> unit action" where
  "sys_stdout_write txt s = (Inr (), s\<lparr>stdout := stdout s @ txt\<rparr>)"

text \<open>\<open>print(a, b, ...)\<close>: the arguments separated by one space, then a line break.\<close>

fun py_join :: "string list \<Rightarrow> string" where
  "py_join [] = []"
| "py_join [a] = a"
| "py_join (a # b # rest) = a @ '' '' @ py_join (b # rest)"

definition py_print :: "string list \<Rightarrow> unit action" where
  "py_print args = sys_stdout_write (py_join args @ NL)"

text \<open>
  The attributes of a start tag are a dictionary from names to values (the library's
  \<open>AttributesImpl\<close>): an association list with distinct keys, in insertion order.
\<close>

definition getNames :: "(string, string) alist \<Rightarrow> string list" where
  "getNames attributes = map fst (DAList.impl_of attributes)"

definition getValue :: "(string, string) alist \<Rightarrow> string \<Rightarrow> py_error + string" where
  "getValue attributes name =
     (case DAList.lookup attributes name of None \<Rightarrow> Inl KeyError | Some v \<Rightarrow> Inr v)"

definition pushElementToStack :: "string \<Rightarrow> int action" where
  "pushElementToStack name s =
     (let pos = int (length (elementStack s))
      in (Inr pos, s\<lparr>elementStack := elementStack s @ [name]\<rparr>))"

text \<open>\<open>self.elementStack.pop()\<close>: \<open>list.pop\<close> raises \<open>IndexError\<close> on an empty list.\<close>

definition elementStack_pop :: "string action" where
  "elementStack_pop s =
     (if elementStack s = [] then (Inl IndexError, s)
      else (Inr (last (elementStack s)), s\<lparr>elementStack := butlast (elementStack s)\<rparr>))"

text \<open>
  In the \<open>else\<close> branch the first argument of \<open>print\<close> is
  \<open>'%s\nelement %s was not at the top of the stack\n\n' % WHITE\<close>: the operator \<open>%\<close>
  binds tighter than the comma, so the format receives the single argument \<open>WHITE\<close>,
  and \<open>name\<close> is the second argument of \<open>print\<close>.
\<close>

definition popElementFromStack :: "string \<Rightarrow> int action" where
  "popElementFromStack name s =
     (let len = int (length (elementStack s)) in
      and_then elementStack_pop (\<lambda>removed.
        if name = removed then return_val (len - 1)
        else
          and_then (evaluate (py_format
              (''%s'' @ NL @ ''element %s was not at the top of the stack'' @ NL @ NL)
              [WHITE])) (\<lambda>msg.
          and_then (py_print [msg, name]) (\<lambda>_.
          raise (SystemExit 4)))) s)"

text \<open>\<open>for _ in range(0, pos)\<close> runs \<open>nat pos\<close> times.\<close>

fun writeSpaces_loop :: "nat \<Rightarrow> string \<Rightarrow> unit action" where
  "writeSpaces_loop 0 chars = return_val ()"
| "writeSpaces_loop (Suc n) chars =
     and_then (evaluate (py_format SPACES [chars])) (\<lambda>txt.
     and_then (sys_stdout_write txt) (\<lambda>_.
     writeSpaces_loop n chars))"

definition writeSpaces :: "int \<Rightarrow> string \<Rightarrow> unit action" where
  "writeSpaces pos chars = writeSpaces_loop (nat pos) chars"

definition writeNewLine :: "unit action" where
  "writeNewLine = py_print [[]]"

definition writeStartName :: "string \<Rightarrow> unit action" where
  "writeStartName name =
     and_then (evaluate (py_format STARTNAME [name])) sys_stdout_write"

definition writeEndName :: "string \<Rightarrow> unit action" where
  "writeEndName name =
     and_then (evaluate (py_format ENDNAME [name])) sys_stdout_write"

definition writeElementData :: "string \<Rightarrow> unit action" where
  "writeElementData data =
     (if data \<noteq> [] then and_then (evaluate (py_format ELEMENTDATA [data])) sys_stdout_write
      else return_val ())"

fun writeAttributes_loop :: "(string, string) alist \<Rightarrow> string list \<Rightarrow> unit action" where
  "writeAttributes_loop attributes [] = return_val ()"
| "writeAttributes_loop attributes (iname # rest) =
     and_then (evaluate (getValue attributes iname)) (\<lambda>v.
     and_then (evaluate (py_format PARENSTMNT [iname, v])) (\<lambda>txt.
     and_then (sys_stdout_write txt) (\<lambda>_.
     writeAttributes_loop attributes rest)))"

definition writeAttributes :: "(string, string) alist \<Rightarrow> unit action" where
  "writeAttributes attributes = writeAttributes_loop attributes (getNames attributes)"

definition getCharacterData :: "string action" where
  "getCharacterData s =
     (let data = strip (charBuffer s)
      in (Inr data, s\<lparr>charBuffer := []\<rparr>))"

definition startElement :: "string \<Rightarrow> (string, string) alist \<Rightarrow> unit action" where
  "startElement name attributes =
     and_then (pushElementToStack name) (\<lambda>pos.
     and_then writeNewLine (\<lambda>_.
     and_then (writeSpaces pos ''   '') (\<lambda>_.
     and_then (writeStartName name) (\<lambda>_.
     and_then (writeAttributes attributes) (\<lambda>_.
     (\<lambda>s. (Inr (), s\<lparr>nLastWritePos := pos\<rparr>)))))))"

definition endElement :: "string \<Rightarrow> unit action" where
  "endElement name =
     and_then (popElementFromStack name) (\<lambda>pos.
     and_then getCharacterData (\<lambda>charStr.
     and_then (writeElementData charStr) (\<lambda>_.
     and_then (\<lambda>s. if pos < nLastWritePos s then writeSpaces pos ''   '' s
                    else (Inr (), s)) (\<lambda>_.
     writeEndName name))))"

definition characters :: "string \<Rightarrow> unit action" where
  "characters content s = (Inr (), s\<lparr>charBuffer := charBuffer s @ content\<rparr>)"

section \<open>The event source\<close>

text \<open>
  \<open>xml.sax.parse\<close> calls the handler once per event, in document order; an exception
  raised by a handler method ends the parse and propagates to the caller.
\<close>

datatype event =
    StartElement string "(string, string) alist"
  | Characters string
  | EndElement string

fun dispatch :: "event \<Rightarrow> unit action" where
  "dispatch (StartElement name attributes) = startElement name attributes"
| "dispatch (Characters content) = characters content"
| "dispatch (EndElement name) = endElement name"

fun deliver :: "event list \<Rightarrow> unit action" where
  "deliver [] = return_val ()"
| "deliver (e # es) = and_then (dispatch e) (\<lambda>_. deliver es)"

section \<open>The script\<close>

text \<open>
  What the script takes from outside: \<open>open\<close>, which returns a source or raises, and
  the expat-based parser behind \<open>xml.sax.parse\<close>, which for a source delivers a list of
  events to the handler and then either returns or raises.
\<close>

record runtime =
  open_file :: "string \<Rightarrow> py_error + string"
  sax_parse :: "string \<Rightarrow> event list \<times> py_error option"

definition xml_sax_parse :: "runtime \<Rightarrow> string \<Rightarrow> unit action" where
  "xml_sax_parse rt source =
     (case sax_parse rt source of
        (events, failure) \<Rightarrow>
          and_then (deliver events) (\<lambda>_.
          case failure of None \<Rightarrow> return_val () | Some e \<Rightarrow> raise e))"

definition try_except :: "'a action \<Rightarrow> (py_error \<Rightarrow> 'a action) \<Rightarrow> 'a action" where
  "try_except body handler s =
     (case body s of (Inl e, s') \<Rightarrow> handler e s' | (Inr x, s') \<Rightarrow> (Inr x, s'))"

definition usage :: "int \<Rightarrow> unit action" where
  "usage exitFlag =
     and_then (py_print [NL @ ''USAGE: ./xmlParse.py xmlFileToView'' @ NL @ NL]) (\<lambda>_.
     raise (SystemExit exitFlag))"

text \<open>The two \<open>except\<close> clauses of \<open>main\<close>; any other exception propagates.\<close>

definition main_except :: "string \<Rightarrow> py_error \<Rightarrow> unit action" where
  "main_except sourceFileName e =
     (case e of
        SAXParseException msg \<Rightarrow>
          and_then (py_print [NL @ ''Failed to parse '' @ sourceFileName @
              ''. This appears not to be a valid xml document: '' @ msg @ NL @ NL]) (\<lambda>_.
          raise (SystemExit 2))
      | OSError msg \<Rightarrow>
          and_then (py_print [NL @ ''Failed to open '' @ sourceFileName @ '': '' @ msg @
              NL @ NL]) (\<lambda>_.
          raise (SystemExit 3))
      | _ \<Rightarrow> raise e)"

definition main :: "runtime \<Rightarrow> string \<Rightarrow> unit action" where
  "main rt sourceFileName =
     try_except
       (and_then (evaluate (open_file rt sourceFileName)) (\<lambda>source.
        xml_sax_parse rt source))
       (main_except sourceFileName)"

text \<open>\<open>sys.argv[i]\<close>: an index past the end of the list raises \<open>IndexError\<close>.\<close>

definition argv_item :: "string list \<Rightarrow> nat \<Rightarrow> py_error + string" where
  "argv_item argv i = (if i < length argv then Inr (argv ! i) else Inl IndexError)"

text \<open>
  The block under \<open>if __name__ == "__main__"\<close>. Both operands of \<open>or\<close> read
  \<open>sys.argv[1]\<close>; the second is evaluated only when the first comparison is false.
\<close>

definition main_block :: "runtime \<Rightarrow> string list \<Rightarrow> unit action" where
  "main_block rt argv =
     and_then (evaluate (argv_item argv 1)) (\<lambda>first.
     and_then
       (if first = ''-h'' then usage 0
        else and_then (evaluate (argv_item argv 1)) (\<lambda>second.
             if second = ''--help'' then usage 0 else return_val ())) (\<lambda>_.
     and_then (if int (length argv) \<noteq> 2 then usage 1 else return_val ()) (\<lambda>_.
     and_then (evaluate (argv_item argv 1)) (\<lambda>sourceFileName.
     and_then (main rt sourceFileName) (\<lambda>_.
     and_then (py_print [[]]) (\<lambda>_.
     raise (SystemExit 0)))))))"

text \<open>
  The exit status of the interpreter: the argument of an uncaught \<open>SystemExit\<close> (the
  script passes 0 to 4 only), 1 after any other uncaught exception (whose traceback goes
  to standard error), 0 when the script runs to its end.
\<close>

definition exit_status :: "py_error + unit \<Rightarrow> int" where
  "exit_status r = (case r of Inr _ \<Rightarrow> 0 | Inl (SystemExit n) \<Rightarrow> n | Inl _ \<Rightarrow> 1)"

text \<open>
  One run of the script from a fresh process: its exit status and what it has written to
  standard output.
\<close>

definition process :: "runtime \<Rightarrow> string list \<Rightarrow> int \<times> string" where
  "process rt argv =
     (case main_block rt argv initial of (r, s) \<Rightarrow> (exit_status r, stdout s))"

section \<open>Notions of the specification\<close>

text \<open>
  One indentation filler unit is what \<open>writeSpaces\<close> writes per position with the three
  blanks both handlers pass; an attribute is rendered as \<open>(name = value)\<close> followed by a
  blank; the usage text is what \<open>usage\<close> prints.
\<close>

definition filler_unit :: string where
  "filler_unit = BLACK @ ''   '' @ WHITE"

definition indentation :: "nat \<Rightarrow> string" where
  "indentation n = concat (replicate n filler_unit)"

definition attribute_text :: "string \<times> string \<Rightarrow> string" where
  "attribute_text p = BLUE @ ''('' @ fst p @ '' = '' @ snd p @ '') '' @ WHITE"

definition data_token :: "string \<Rightarrow> string" where
  "data_token text = GREEN @ text @ '' '' @ WHITE"

definition closing_marker :: "string \<Rightarrow> string" where
  "closing_marker name = RED @ ''/'' @ name @ NL @ WHITE"

definition usage_text :: string where
  "usage_text = NL @ ''USAGE: ./xmlParse.py xmlFileToView'' @ NL @ NL @ NL"

text \<open>
  A proper bracket sequence of events: character data anywhere, and every start tag
  closed by an end tag of the same name around a proper bracket sequence.
\<close>

inductive well_formed :: "event list \<Rightarrow> bool" where
  wf_empty: "well_formed []"
| wf_text: "well_formed es \<Longrightarrow> well_formed (Characters content # es)"
| wf_element:
    "well_formed inner \<Longrightarrow> well_formed rest \<Longrightarrow>
     well_formed (StartElement name attributes # inner @ EndElement name # rest)"

text \<open>
  The same property as a check that runs: the names of the open elements, innermost
  first, against the events still to come. \<open>closes opened es\<close> says that \<open>es\<close>
  closes the open elements in turn, with proper bracket sequences in between.
\<close>

fun balanced :: "string list \<Rightarrow> event list \<Rightarrow> bool" where
  "balanced opened [] = (opened = [])"
| "balanced opened (StartElement name attributes # es) = balanced (name # opened) es"
| "balanced opened (Characters content # es) = balanced opened es"
| "balanced opened (EndElement name # es) =
     (case opened of [] \<Rightarrow> False | innermost # below \<Rightarrow> innermost = name \<and> balanced below es)"

inductive closes :: "string list \<Rightarrow> event list \<Rightarrow> bool" where
  closes_none: "well_formed es \<Longrightarrow> closes [] es"
| closes_next:
    "well_formed inner \<Longrightarrow> closes below rest \<Longrightarrow>
     closes (name # below) (inner @ EndElement name # rest)"

text \<open>The nesting depth after a sequence of events: start tags minus end tags.\<close>

fun depth_change :: "event \<Rightarrow> int" where
  "depth_change (StartElement name attributes) = 1"
| "depth_change (Characters content) = 0"
| "depth_change (EndElement name) = - 1"

definition depth :: "event list \<Rightarrow> int" where
  "depth es = sum_list (map depth_change es)"

text \<open>
  Three runtimes to run the script in: one in which no file can be opened; one whose
  parser rejects the document \<open><a><b></a>\<close> at the mismatched end tag, after the two
  start tags; and an event source that breaks its contract and closes \<open>b\<close> while
  \<open>a\<close> is on top of the stack.
\<close>

definition no_file_runtime :: runtime where
  "no_file_runtime =
     \<lparr>open_file = (\<lambda>name. Inl (OSError ''[Errno 2] No such file or directory'')),
      sax_parse = (\<lambda>source. ([], None))\<rparr>"

definition mismatched_tag_runtime :: runtime where
  "mismatched_tag_runtime =
     \<lparr>open_file = (\<lambda>name. Inr ''<a><b></a>''),
      sax_parse = (\<lambda>source.
        ([StartElement ''a'' DAList.empty, StartElement ''b'' DAList.empty],
         Some (SAXParseException ''mismatched tag'')))\<rparr>"

definition fault_injected_runtime :: runtime where
  "fault_injected_runtime =
     \<lparr>open_file = (\<lambda>name. Inr []),
      sax_parse = (\<lambda>source.
        ([StartElement ''a'' DAList.empty, EndElement ''b''], None))\<rparr>"

section \<open>Formatting with the colour macros\<close>

lemma py_format_plain: "CHR ''%'' \<notin> set t \<Longrightarrow> py_format t [] = Inr t"
  by (induction t) auto

lemma py_format_prefix:
  "CHR ''%'' \<notin> set pre \<Longrightarrow>
   py_format (pre @ fmt) args = map_sum id ((@) pre) (py_format fmt args)"
proof (induction pre)
  case Nil
  show ?case by (cases "py_format fmt args") simp_all
next
  case (Cons c pre)
  then show ?case by (cases "py_format fmt args") auto
qed

lemma no_percent_colours:
  "CHR ''%'' \<notin> set RED" "CHR ''%'' \<notin> set GREEN" "CHR ''%'' \<notin> set BLUE"
  "CHR ''%'' \<notin> set WHITE" "CHR ''%'' \<notin> set BLACK"
  by (simp_all add: RED_def GREEN_def BLUE_def WHITE_def BLACK_def)

lemma format_SPACES: "py_format SPACES [chars] = Inr (BLACK @ chars @ WHITE)"
  unfolding SPACES_def
  by (simp add: py_format_prefix [of BLACK] py_format_plain [of WHITE] no_percent_colours)

lemma format_STARTNAME: "py_format STARTNAME [name] = Inr (RED @ name @ '' '' @ WHITE)"
  unfolding STARTNAME_def
  by (simp add: py_format_prefix [of RED] py_format_plain [of WHITE] no_percent_colours)

lemma format_ENDNAME: "py_format ENDNAME [name] = Inr (closing_marker name)"
  unfolding ENDNAME_def closing_marker_def
  by (simp add: NL_def py_format_prefix [of RED] py_format_plain [of WHITE] no_percent_colours)

lemma format_ELEMENTDATA: "py_format ELEMENTDATA [data] = Inr (data_token data)"
  unfolding ELEMENTDATA_def data_token_def
  by (simp add: py_format_prefix [of GREEN] py_format_plain [of WHITE] no_percent_colours)

lemma format_PARENSTMNT: "py_format PARENSTMNT [iname, v] = Inr (attribute_text (iname, v))"
  unfolding PARENSTMNT_def attribute_text_def
  by (simp add: py_format_prefix [of BLUE] py_format_plain [of WHITE] no_percent_colours)

lemma format_mismatch:
  "py_format (''%s'' @ NL @ ''element %s was not at the top of the stack'' @ NL @ NL) [a] =
     Inl TypeError"
  by (simp add: NL_def)

section \<open>What each writing method does\<close>

lemma writeSpaces_loop_run:
  "writeSpaces_loop n chars s =
     (Inr (), s\<lparr>stdout := stdout s @ concat (replicate n (BLACK @ chars @ WHITE))\<rparr>)"
proof (induction n arbitrary: s)
  case 0
  show ?case by (simp add: return_val_def)
next
  case (Suc n)
  show ?case
    by (simp add: and_then_def evaluate_def sys_stdout_write_def format_SPACES Suc.IH)
qed

lemma writeSpaces_run:
  "writeSpaces pos ''   '' s = (Inr (), s\<lparr>stdout := stdout s @ indentation (nat pos)\<rparr>)"
  by (simp add: writeSpaces_def writeSpaces_loop_run indentation_def filler_unit_def)

lemma lookup_entry:
  "(n, v) \<in> set (DAList.impl_of attributes) \<Longrightarrow> DAList.lookup attributes n = Some v"
  by (simp add: DAList.lookup.rep_eq)

lemma writeAttributes_loop_run:
  "set entries \<subseteq> set (DAList.impl_of attributes) \<Longrightarrow>
   writeAttributes_loop attributes (map fst entries) s =
     (Inr (), s\<lparr>stdout := stdout s @ concat (map attribute_text entries)\<rparr>)"
proof (induction entries arbitrary: s)
  case Nil
  show ?case by (simp add: return_val_def)
next
  case (Cons e entries)
  from Cons.prems have "(fst e, snd e) \<in> set (DAList.impl_of attributes)" by simp
  then have "DAList.lookup attributes (fst e) = Some (snd e)"
    by (rule lookup_entry)
  then have "getValue attributes (fst e) = Inr (snd e)"
    by (simp add: getValue_def)
  moreover from Cons.prems have "set entries \<subseteq> set (DAList.impl_of attributes)" by simp
  ultimately show ?case
    by (simp add: and_then_def evaluate_def sys_stdout_write_def format_PARENSTMNT Cons.IH)
qed

lemma writeAttributes_run:
  "writeAttributes attributes s =
     (Inr (), s\<lparr>stdout := stdout s @ concat (map attribute_text (DAList.impl_of attributes))\<rparr>)"
  by (simp add: writeAttributes_def getNames_def writeAttributes_loop_run)

lemma writeNewLine_run: "writeNewLine s = (Inr (), s\<lparr>stdout := stdout s @ NL\<rparr>)"
  by (simp add: writeNewLine_def py_print_def sys_stdout_write_def)

lemma writeStartName_run:
  "writeStartName name s = (Inr (), s\<lparr>stdout := stdout s @ RED @ name @ '' '' @ WHITE\<rparr>)"
  by (simp add: writeStartName_def and_then_def evaluate_def sys_stdout_write_def
      format_STARTNAME)

lemma writeEndName_run:
  "writeEndName name s = (Inr (), s\<lparr>stdout := stdout s @ closing_marker name\<rparr>)"
  by (simp add: writeEndName_def and_then_def evaluate_def sys_stdout_write_def format_ENDNAME)

lemma writeElementData_run:
  "writeElementData data s =
     (Inr (), s\<lparr>stdout := stdout s @ (if data = [] then [] else data_token data)\<rparr>)"
  by (simp add: writeElementData_def and_then_def evaluate_def sys_stdout_write_def
      return_val_def format_ELEMENTDATA)

section \<open>The handler methods\<close>

lemma startElement_run:
  "startElement name attributes s =
     (Inr (),
      s\<lparr>elementStack := elementStack s @ [name],
        stdout := stdout s @ NL @ indentation (length (elementStack s)) @
                  RED @ name @ '' '' @ WHITE @
                  concat (map attribute_text (DAList.impl_of attributes)),
        nLastWritePos := int (length (elementStack s))\<rparr>)"
  by (simp add: startElement_def and_then_def pushElementToStack_def writeNewLine_run
      writeSpaces_run writeStartName_run writeAttributes_run)

lemma popElementFromStack_result:
  "popElementFromStack name s =
     (if elementStack s = [] then (Inl IndexError, s)
      else if last (elementStack s) = name
      then (Inr (int (length (elementStack s)) - 1),
            s\<lparr>elementStack := butlast (elementStack s)\<rparr>)
      else (Inl TypeError, s\<lparr>elementStack := butlast (elementStack s)\<rparr>))"
  by (auto simp add: popElementFromStack_def and_then_def elementStack_pop_def return_val_def
      evaluate_def NL_def)

lemma endElement_after_pop:
  "popElementFromStack name s = (Inr pos, s') \<Longrightarrow>
   endElement name s =
     (Inr (),
      s'\<lparr>charBuffer := [],
         stdout := stdout s @
           (if strip (charBuffer s) = [] then [] else data_token (strip (charBuffer s))) @
           (if pos < nLastWritePos s then indentation (nat pos) else []) @
           closing_marker name\<rparr>)"
  by (auto simp add: popElementFromStack_result endElement_def and_then_def
      getCharacterData_def writeElementData_run writeSpaces_run writeEndName_run
      split: if_splits)

lemma endElement_keeps_nLastWritePos:
  "nLastWritePos (snd (endElement name s)) = nLastWritePos s"
  by (auto simp add: popElementFromStack_result endElement_def and_then_def
      getCharacterData_def writeElementData_run writeSpaces_run writeEndName_run)

lemma endElement_match:
  "elementStack s \<noteq> [] \<Longrightarrow> last (elementStack s) = name \<Longrightarrow>
   endElement name s =
     (Inr (),
      s\<lparr>elementStack := butlast (elementStack s),
        charBuffer := [],
        stdout := stdout s @
          (if strip (charBuffer s) = [] then [] else data_token (strip (charBuffer s))) @
          (if int (length (elementStack s)) - 1 < nLastWritePos s
           then indentation (length (elementStack s) - 1) else []) @
          closing_marker name\<rparr>)"
  by (simp add: endElement_after_pop [of name s "int (length (elementStack s)) - 1"
        "s\<lparr>elementStack := butlast (elementStack s)\<rparr>"]
      popElementFromStack_result nat_diff_distrib')

lemma strip_Nil: "strip [] = []"
  by (simp add: strip_def)

lemma deliver_append:
  "deliver (xs @ ys) s =
     (case deliver xs s of (Inl e, s') \<Rightarrow> (Inl e, s') | (Inr u, s') \<Rightarrow> deliver ys s')"
proof (induction xs arbitrary: s)
  case Nil
  show ?case by (simp add: return_val_def)
next
  case (Cons x xs)
  show ?case
    by (simp add: and_then_def Cons.IH split: prod.splits sum.splits)
qed

lemma deliver_characters:
  "deliver (map Characters fragments) s =
     (Inr (), s\<lparr>charBuffer := charBuffer s @ concat fragments\<rparr>)"
proof (induction fragments arbitrary: s)
  case Nil
  show ?case by (simp add: return_val_def)
next
  case (Cons f fragments)
  show ?case by (simp add: and_then_def characters_def Cons.IH)
qed

section \<open>Start tags\<close>

text \<open>
  C1. For every \<open>StartElement(name, attributes)\<close> event, in every state: the name is
  pushed, and with \<open>pos\<close> the stack depth before the push the handler writes a line
  break, exactly \<open>pos\<close> indentation filler units, the element name followed by a blank,
  and then every attribute of the event as \<open>(name = value)\<close>, each followed by a blank,
  with no line break of the handler's own after the first; finally the Last-Write Column
  is \<open>pos\<close>. The character buffer is untouched and no exception is raised.
\<close>

theorem startElement_renders:
  "startElement name attributes s =
     (Inr (),
      s\<lparr>elementStack := elementStack s @ [name],
        stdout := stdout s @ NL @ indentation (length (elementStack s)) @
                  RED @ name @ '' '' @ WHITE @
                  concat (map attribute_text (DAList.impl_of attributes)),
        nLastWritePos := int (length (elementStack s))\<rparr>)"
  by (rule startElement_run)

theorem startElement_renders_witness:
  "startElement ''item'' (DAList.update ''name'' ''x'' (DAList.update ''id'' ''7'' DAList.empty))
     \<lparr>charBuffer = [], elementStack = [''list''], nLastWritePos = 0, stdout = []\<rparr> =
     (Inr (),
      \<lparr>charBuffer = [], elementStack = [''list'', ''item''], nLastWritePos = 1,
       stdout = NL @ filler_unit @ RED @ ''item '' @ WHITE @
                BLUE @ ''(id = 7) '' @ WHITE @ BLUE @ ''(name = x) '' @ WHITE\<rparr>)"
  using startElement_renders
    [of "''item''" "DAList.update ''name'' ''x'' (DAList.update ''id'' ''7'' DAList.empty)"
        "\<lparr>charBuffer = [], elementStack = [''list''], nLastWritePos = 0, stdout = []\<rparr>"]
  by (simp add: indentation_def attribute_text_def DAList.update.rep_eq DAList.empty.rep_eq)

section \<open>End tags\<close>

text \<open>
  C2. For every \<open>EndElement(name)\<close> event whose pop returns the depth \<open>pos\<close>: after the
  data token (if any) the handler writes \<open>pos\<close> indentation filler units exactly when
  \<open>pos\<close> is strictly less than the Last-Write Column, and then the closing marker, the
  name after a slash and before a line break. \<open>endElement\<close> leaves the Last-Write
  Column as it was, whatever its outcome, and so does \<open>characters\<close>: only
  \<open>startElement\<close> assigns it.
\<close>

theorem endElement_renders:
  "(popElementFromStack name s = (Inr pos, s') \<longrightarrow>
      endElement name s =
        (Inr (),
         s'\<lparr>charBuffer := [],
            stdout := stdout s @
              (if strip (charBuffer s) = [] then [] else data_token (strip (charBuffer s))) @
              (if pos < nLastWritePos s then indentation (nat pos) else []) @
              closing_marker name\<rparr>)) \<and>
   nLastWritePos (snd (endElement name s)) = nLastWritePos s \<and>
   nLastWritePos (snd (characters content s)) = nLastWritePos s"
  by (simp add: endElement_after_pop endElement_keeps_nLastWritePos characters_def)

theorem endElement_renders_witness:
  "popElementFromStack ''b''
     \<lparr>charBuffer = [], elementStack = [''a'', ''b''], nLastWritePos = 2, stdout = []\<rparr> =
     (Inr 1, \<lparr>charBuffer = [], elementStack = [''a''], nLastWritePos = 2, stdout = []\<rparr>) \<and>
   endElement ''b''
     \<lparr>charBuffer = [], elementStack = [''a'', ''b''], nLastWritePos = 2, stdout = []\<rparr> =
     (Inr (), \<lparr>charBuffer = [], elementStack = [''a''], nLastWritePos = 2,
               stdout = filler_unit @ closing_marker ''b''\<rparr>) \<and>
   popElementFromStack ''b''
     \<lparr>charBuffer = [], elementStack = [''a'', ''b''], nLastWritePos = 1, stdout = []\<rparr> =
     (Inr 1, \<lparr>charBuffer = [], elementStack = [''a''], nLastWritePos = 1, stdout = []\<rparr>) \<and>
   endElement ''b''
     \<lparr>charBuffer = [], elementStack = [''a'', ''b''], nLastWritePos = 1, stdout = []\<rparr> =
     (Inr (), \<lparr>charBuffer = [], elementStack = [''a''], nLastWritePos = 1,
               stdout = closing_marker ''b''\<rparr>)"
proof -
  let ?s = "\<lparr>charBuffer = [], elementStack = [''a'', ''b''], nLastWritePos = 2, stdout = []\<rparr>"
  let ?s' = "\<lparr>charBuffer = [], elementStack = [''a''], nLastWritePos = 2, stdout = []\<rparr>"
  let ?t = "\<lparr>charBuffer = [], elementStack = [''a'', ''b''], nLastWritePos = 1, stdout = []\<rparr>"
  let ?t' = "\<lparr>charBuffer = [], elementStack = [''a''], nLastWritePos = 1, stdout = []\<rparr>"
  have pop: "popElementFromStack ''b'' ?s = (Inr 1, ?s')"
    by (simp add: popElementFromStack_result)
  have pop': "popElementFromStack ''b'' ?t = (Inr 1, ?t')"
    by (simp add: popElementFromStack_result)
  from endElement_renders [of "''b''" ?s 1 ?s' "[]"] pop
  have deeper: "endElement ''b'' ?s =
      (Inr (), \<lparr>charBuffer = [], elementStack = [''a''], nLastWritePos = 2,
                stdout = filler_unit @ closing_marker ''b''\<rparr>)"
    by (simp add: strip_def indentation_def)
  from endElement_renders [of "''b''" ?t 1 ?t' "[]"] pop'
  have leaf: "endElement ''b'' ?t =
      (Inr (), \<lparr>charBuffer = [], elementStack = [''a''], nLastWritePos = 1,
                stdout = closing_marker ''b''\<rparr>)"
    by (simp add: strip_def)
  from pop deeper pop' leaf show ?thesis by simp
qed

section \<open>Character data\<close>

text \<open>
  C4. From a state whose buffer is empty (as it is after every drain), character-data
  fragments followed by the \<open>EndElement\<close> of the element on top of the stack: the
  fragments are concatenated in arrival order and the concatenation is stripped once; the
  result is written as one data token before the closing marker, and nothing is written
  for it when it is empty. The buffer is empty afterwards. The fragments \<open>"  Hel"\<close>,
  \<open>"lo "\<close> give \<open>Hello\<close>; whitespace alone gives no data token.
\<close>

theorem character_data_trimmed_once:
  assumes "charBuffer s = []" and "elementStack s \<noteq> []" and "last (elementStack s) = name"
  shows "deliver (map Characters fragments @ [EndElement name]) s =
     (Inr (),
      s\<lparr>elementStack := butlast (elementStack s),
        charBuffer := [],
        stdout := stdout s @
          (if strip (concat fragments) = [] then []
           else data_token (strip (concat fragments))) @
          (if int (length (elementStack s)) - 1 < nLastWritePos s
           then indentation (length (elementStack s) - 1) else []) @
          closing_marker name\<rparr>)"
  using assms
  by (simp add: deliver_append deliver_characters endElement_match and_then_def return_val_def)

theorem character_data_trimmed_once_witness:
  "deliver (map Characters [''  Hel'', ''lo ''] @ [EndElement ''x''])
     \<lparr>charBuffer = [], elementStack = [''x''], nLastWritePos = 0, stdout = []\<rparr> =
     (Inr (), \<lparr>charBuffer = [], elementStack = [], nLastWritePos = 0,
               stdout = data_token ''Hello'' @ closing_marker ''x''\<rparr>) \<and>
   deliver (map Characters [''   '', NL, ''  ''] @ [EndElement ''x''])
     \<lparr>charBuffer = [], elementStack = [''x''], nLastWritePos = 0, stdout = []\<rparr> =
     (Inr (), \<lparr>charBuffer = [], elementStack = [], nLastWritePos = 0,
               stdout = closing_marker ''x''\<rparr>)"
proof -
  let ?s = "\<lparr>charBuffer = [], elementStack = [''x''], nLastWritePos = 0, stdout = []\<rparr>"
  have "strip (concat [''  Hel'', ''lo '']) = ''Hello''"
    by (simp add: strip_def isspace_def)
  moreover have "strip (concat [''   '', NL, ''  '']) = []"
    by (simp add: strip_def isspace_def NL_def)
  ultimately show ?thesis
    using character_data_trimmed_once [of ?s "''x''" "[''  Hel'', ''lo '']"]
      character_data_trimmed_once [of ?s "''x''" "[''   '', NL, ''  '']"]
    by simp
qed

text \<open>
  C10. \<open>startElement\<close> does not drain the buffer, so character data that arrives
  before a child's start tag is rendered when the child closes, after the buffer's
  earlier content, and the enclosing element, closing right after, has no data token
  left. For \<open>Start(a), Characters("hello"), Start(b), End(b), End(a)\<close> the text
  \<open>hello\<close> stands between the start tag of \<open>b\<close> and its closing marker.
\<close>

theorem text_before_child_rendered_at_child_end:
  assumes "elementStack s \<noteq> []" and "last (elementStack s) = parent"
  shows "deliver [Characters content, StartElement child attributes, EndElement child,
                  EndElement parent] s =
     (Inr (),
      s\<lparr>elementStack := butlast (elementStack s),
        charBuffer := [],
        nLastWritePos := int (length (elementStack s)),
        stdout := stdout s @ NL @ indentation (length (elementStack s)) @
          RED @ child @ '' '' @ WHITE @
          concat (map attribute_text (DAList.impl_of attributes)) @
          (if strip (charBuffer s @ content) = [] then []
           else data_token (strip (charBuffer s @ content))) @
          closing_marker child @
          indentation (length (elementStack s) - 1) @ closing_marker parent\<rparr>)"
proof -
  define s1 where "s1 = s\<lparr>charBuffer := charBuffer s @ content\<rparr>"
  define s2 where "s2 = s1\<lparr>elementStack := elementStack s1 @ [child],
        stdout := stdout s1 @ NL @ indentation (length (elementStack s1)) @
                  RED @ child @ '' '' @ WHITE @
                  concat (map attribute_text (DAList.impl_of attributes)),
        nLastWritePos := int (length (elementStack s1))\<rparr>"
  define s3 where "s3 = s2\<lparr>elementStack := butlast (elementStack s2),
        charBuffer := [],
        stdout := stdout s2 @
          (if strip (charBuffer s2) = [] then [] else data_token (strip (charBuffer s2))) @
          (if int (length (elementStack s2)) - 1 < nLastWritePos s2
           then indentation (length (elementStack s2) - 1) else []) @
          closing_marker child\<rparr>"
  define s4 where "s4 = s3\<lparr>elementStack := butlast (elementStack s3),
        charBuffer := [],
        stdout := stdout s3 @
          (if strip (charBuffer s3) = [] then [] else data_token (strip (charBuffer s3))) @
          (if int (length (elementStack s3)) - 1 < nLastWritePos s3
           then indentation (length (elementStack s3) - 1) else []) @
          closing_marker parent\<rparr>"
  have e1: "characters content s = (Inr (), s1)"
    by (simp add: characters_def s1_def)
  have e2: "startElement child attributes s1 = (Inr (), s2)"
    unfolding s2_def by (rule startElement_run)
  have "elementStack s2 \<noteq> []" and "last (elementStack s2) = child"
    by (simp_all add: s2_def)
  then have e3: "endElement child s2 = (Inr (), s3)"
    unfolding s3_def by (rule endElement_match)
  have "elementStack s3 \<noteq> []" and "last (elementStack s3) = parent"
    using assms by (simp_all add: s3_def s2_def s1_def)
  then have e4: "endElement parent s3 = (Inr (), s4)"
    unfolding s4_def by (rule endElement_match)
  have run: "deliver [Characters content, StartElement child attributes, EndElement child,
                  EndElement parent] s = (Inr (), s4)"
    by (simp add: and_then_def return_val_def e1 e2 e3 e4)
  have "s4 = s\<lparr>elementStack := butlast (elementStack s),
        charBuffer := [],
        nLastWritePos := int (length (elementStack s)),
        stdout := stdout s @ NL @ indentation (length (elementStack s)) @
          RED @ child @ '' '' @ WHITE @
          concat (map attribute_text (DAList.impl_of attributes)) @
          (if strip (charBuffer s @ content) = [] then []
           else data_token (strip (charBuffer s @ content))) @
          closing_marker child @
          indentation (length (elementStack s) - 1) @ closing_marker parent\<rparr>"
    using assms by (simp add: s4_def s3_def s2_def s1_def strip_Nil)
  with run show ?thesis by simp
qed

theorem text_before_child_rendered_at_child_end_witness:
  "deliver [StartElement ''a'' DAList.empty, Characters ''hello'',
            StartElement ''b'' DAList.empty, EndElement ''b'', EndElement ''a''] initial =
     (Inr (), \<lparr>charBuffer = [], elementStack = [], nLastWritePos = 1,
               stdout = NL @ RED @ ''a '' @ WHITE @
                        NL @ filler_unit @ RED @ ''b '' @ WHITE @
                        data_token ''hello'' @ closing_marker ''b'' @
                        closing_marker ''a''\<rparr>)"
proof -
  let ?s = "\<lparr>charBuffer = [], elementStack = [''a''], nLastWritePos = 0,
             stdout = NL @ RED @ ''a '' @ WHITE\<rparr>"
  have start: "startElement ''a'' DAList.empty initial = (Inr (), ?s)"
    by (simp add: startElement_run initial_def indentation_def DAList.empty.rep_eq)
  have hello: "strip ''hello'' = ''hello''"
    by (simp add: strip_def isspace_def)
  have "deliver [Characters ''hello'', StartElement ''b'' DAList.empty, EndElement ''b'',
          EndElement ''a''] ?s =
     (Inr (), \<lparr>charBuffer = [], elementStack = [], nLastWritePos = 1,
               stdout = NL @ RED @ ''a '' @ WHITE @
                        NL @ filler_unit @ RED @ ''b '' @ WHITE @
                        data_token ''hello'' @ closing_marker ''b'' @
                        closing_marker ''a''\<rparr>)"
    using text_before_child_rendered_at_child_end
      [of ?s "''a''" "''hello''" "''b''" DAList.empty]
    by (simp add: hello indentation_def DAList.empty.rep_eq)
  with start show ?thesis
    by (simp add: and_then_def)
qed

section \<open>Popping an empty stack\<close>

text \<open>
  C6, as the code has it. \<open>popElementFromStack\<close> does not test for an empty stack: an
  \<open>EndElement\<close> that arrives while the stack is empty ends in the \<open>IndexError\<close> of
  \<open>list.pop\<close>, with nothing written and the state unchanged. With a non-empty stack
  \<open>endElement\<close> never raises \<open>IndexError\<close>.
\<close>

theorem empty_stack_pop_unguarded:
  "(elementStack s = [] \<longrightarrow> endElement name s = (Inl IndexError, s)) \<and>
   (elementStack s \<noteq> [] \<longrightarrow> fst (endElement name s) \<noteq> Inl IndexError)"
  by (auto simp add: endElement_def and_then_def popElementFromStack_result
      getCharacterData_def writeElementData_run writeSpaces_run writeEndName_run)

theorem empty_stack_pop_unguarded_witness:
  "elementStack initial = [] \<and> endElement ''a'' initial = (Inl IndexError, initial) \<and>
   elementStack (initial\<lparr>elementStack := [''a'']\<rparr>) \<noteq> [] \<and>
   fst (endElement ''a'' (initial\<lparr>elementStack := [''a'']\<rparr>)) \<noteq> Inl IndexError"
  using empty_stack_pop_unguarded [of initial "''a''"]
    empty_stack_pop_unguarded [of "initial\<lparr>elementStack := [''a'']\<rparr>" "''a''"]
  by (simp add: initial_def)

text \<open>
  The claim as stated, that an \<open>EndElement\<close> on an empty stack takes a guarded error
  path, fails for the one-event sequence \<open>End(a)\<close>.
\<close>

theorem empty_stack_pop_counterexample:
  "deliver [EndElement ''a''] initial = (Inl IndexError, initial)"
  by (simp add: and_then_def endElement_def popElementFromStack_result initial_def)

section \<open>Well-formed event sequences\<close>

lemma well_formed_balanced_append:
  "well_formed es \<Longrightarrow> balanced opened rest \<Longrightarrow> balanced opened (es @ rest)"
proof (induction arbitrary: opened rest rule: well_formed.induct)
  case wf_empty
  then show ?case by simp
next
  case (wf_text es content)
  then show ?case by simp
next
  case (wf_element inner tail name attributes)
  from wf_element.IH(2) [OF wf_element.prems]
  have "balanced (name # opened) (EndElement name # tail @ rest)" by simp
  from wf_element.IH(1) [OF this] show ?case by simp
qed

lemma closes_text: "closes opened es \<Longrightarrow> closes opened (Characters content # es)"
proof (induction rule: closes.induct)
  case (closes_none es)
  then show ?case by (simp add: closes.closes_none wf_text)
next
  case (closes_next inner below rest name)
  from closes_next.hyps(1) have "well_formed (Characters content # inner)"
    by (rule wf_text)
  from closes.closes_next [OF this closes_next.hyps(2), of name] show ?case by simp
qed

lemma closes_element:
  "closes (name # opened) es \<Longrightarrow> closes opened (StartElement name attributes # es)"
proof -
  assume "closes (name # opened) es"
  then obtain inner rest where es: "es = inner @ EndElement name # rest"
    and inner: "well_formed inner" and rest: "closes opened rest"
    by (auto elim: closes.cases)
  from rest show ?thesis
  proof (cases rule: closes.cases)
    case closes_none
    with inner have "well_formed (StartElement name attributes # inner @ EndElement name # rest)"
      by (simp add: wf_element)
    with closes_none show ?thesis by (simp add: es closes.closes_none)
  next
    case (closes_next inner' below rest' name')
    from inner closes_next(3)
    have "well_formed (StartElement name attributes # inner @ EndElement name # inner')"
      by (rule wf_element)
    from closes.closes_next [OF this closes_next(4), of name']
    show ?thesis by (simp add: es closes_next(1,2))
  qed
qed

lemma balanced_closes: "balanced opened es \<Longrightarrow> closes opened es"
proof (induction opened es rule: balanced.induct)
  case (1 opened)
  then show ?case by (simp add: closes_none wf_empty)
next
  case (2 opened name attributes es)
  then show ?case by (simp add: closes_element)
next
  case (3 opened content es)
  then show ?case by (simp add: closes_text)
next
  case (4 opened name es)
  then obtain below where opened: "opened = name # below" and "balanced below es"
    by (auto split: list.splits)
  with "4.IH" have "closes below es" by simp
  from closes_next [OF wf_empty this, of name] show ?case by (simp add: opened)
qed

lemma well_formed_balanced [code]: "well_formed es \<longleftrightarrow> balanced [] es"
proof
  assume "well_formed es"
  from well_formed_balanced_append [OF this, of "[]" "[]"] show "balanced [] es" by simp
next
  assume "balanced [] es"
  then have "closes [] es" by (rule balanced_closes)
  then show "well_formed es" by (auto elim: closes.cases)
qed

lemma depth_Nil: "depth [] = 0"
  by (simp add: depth_def)

lemma depth_Cons: "depth (e # es) = depth_change e + depth es"
  by (simp add: depth_def)

lemma depth_append: "depth (xs @ ys) = depth xs + depth ys"
  by (simp add: depth_def)

lemma well_formed_depth: "well_formed es \<Longrightarrow> depth es = 0"
  by (induction rule: well_formed.induct) (simp_all add: depth_Nil depth_Cons depth_append)

lemma well_formed_run:
  "well_formed es \<Longrightarrow>
   \<exists>s'. deliver es s = (Inr (), s') \<and> elementStack s' = elementStack s"
proof (induction arbitrary: s rule: well_formed.induct)
  case wf_empty
  show ?case by (simp add: return_val_def)
next
  case (wf_text es content)
  obtain s' where "deliver es (s\<lparr>charBuffer := charBuffer s @ content\<rparr>) = (Inr (), s')"
    and "elementStack s' = elementStack (s\<lparr>charBuffer := charBuffer s @ content\<rparr>)"
    using wf_text.IH by blast
  then show ?case by (simp add: and_then_def characters_def)
next
  case (wf_element inner rest name attributes)
  obtain s1 where s1: "startElement name attributes s = (Inr (), s1)"
    and st1: "elementStack s1 = elementStack s @ [name]"
    by (simp add: startElement_run)
  obtain s2 where s2: "deliver inner s1 = (Inr (), s2)"
    and st2: "elementStack s2 = elementStack s1"
    using wf_element.IH(1) by blast
  have "elementStack s2 \<noteq> []" and "last (elementStack s2) = name"
    by (simp_all add: st1 st2)
  then obtain s3 where s3: "endElement name s2 = (Inr (), s3)"
    and st3: "elementStack s3 = butlast (elementStack s2)"
    by (simp add: endElement_match)
  obtain s4 where s4: "deliver rest s3 = (Inr (), s4)"
    and st4: "elementStack s4 = elementStack s3"
    using wf_element.IH(2) by blast
  have "deliver (StartElement name attributes # inner @ EndElement name # rest) s = (Inr (), s4)"
    by (simp add: and_then_def deliver_append s1 s2 s3 s4)
  moreover have "elementStack s4 = elementStack s"
    by (simp add: st1 st2 st3 st4)
  ultimately show ?case by simp
qed

lemma well_formed_prefix_run:
  "well_formed es \<Longrightarrow> prefix p es \<Longrightarrow>
   \<exists>s'. deliver p s = (Inr (), s') \<and>
        int (length (elementStack s')) = int (length (elementStack s)) + depth p \<and>
        0 \<le> depth p"
proof (induction arbitrary: p s rule: well_formed.induct)
  case wf_empty
  then show ?case by (simp add: return_val_def depth_Nil)
next
  case (wf_text es content)
  show ?case
  proof (cases p)
    case Nil
    then show ?thesis by (simp add: return_val_def depth_Nil)
  next
    case (Cons e q)
    with wf_text.prems have e: "e = Characters content" and q: "prefix q es" by simp_all
    obtain s' where "deliver q (s\<lparr>charBuffer := charBuffer s @ content\<rparr>) = (Inr (), s')"
      and "int (length (elementStack s')) =
           int (length (elementStack (s\<lparr>charBuffer := charBuffer s @ content\<rparr>))) + depth q"
      and "0 \<le> depth q"
      using wf_text.IH [OF q] by blast
    then show ?thesis
      by (simp add: Cons e and_then_def characters_def depth_Cons)
  qed
next
  case (wf_element inner rest name attributes)
  obtain s1 where s1: "startElement name attributes s = (Inr (), s1)"
    and st1: "elementStack s1 = elementStack s @ [name]"
    by (simp add: startElement_run)
  show ?case
  proof (cases p)
    case Nil
    then show ?thesis by (simp add: return_val_def depth_Nil)
  next
    case (Cons e q)
    with wf_element.prems have e: "e = StartElement name attributes"
      and q: "prefix q (inner @ EndElement name # rest)" by simp_all
    from q consider (inside) "prefix q inner"
      | (beyond) r where "q = inner @ EndElement name # r" "prefix r rest"
      by (auto simp add: prefix_append prefix_Cons)
    then show ?thesis
    proof cases
      case inside
      obtain s2 where "deliver q s1 = (Inr (), s2)"
        and "int (length (elementStack s2)) = int (length (elementStack s1)) + depth q"
        and "0 \<le> depth q"
        using wf_element.IH(1) [OF inside] by blast
      then show ?thesis
        by (simp add: Cons e and_then_def s1 st1 depth_Cons)
    next
      case beyond
      obtain s2 where s2: "deliver inner s1 = (Inr (), s2)"
        and st2: "elementStack s2 = elementStack s1"
        using well_formed_run [OF wf_element.hyps(1)] by blast
      have "elementStack s2 \<noteq> []" and "last (elementStack s2) = name"
        by (simp_all add: st1 st2)
      then obtain s3 where s3: "endElement name s2 = (Inr (), s3)"
        and st3: "elementStack s3 = butlast (elementStack s2)"
        by (simp add: endElement_match)
      obtain s4 where s4: "deliver r s3 = (Inr (), s4)"
        and len4: "int (length (elementStack s4)) = int (length (elementStack s3)) + depth r"
        and nonneg: "0 \<le> depth r"
        using wf_element.IH(2) [OF beyond(2)] by blast
      have "deliver p s = (Inr (), s4)"
        by (simp add: Cons e beyond(1) and_then_def deliver_append s1 s2 s3 s4)
      moreover have "depth p = depth r"
        by (simp add: Cons e beyond(1) depth_Cons depth_append
            well_formed_depth [OF wf_element.hyps(1)])
      moreover have "elementStack s3 = elementStack s"
        by (simp add: st1 st2 st3)
      ultimately show ?thesis using len4 nonneg by simp
    qed
  qed
qed

text \<open>
  C3. For every proper bracket sequence of events and every prefix of it, delivered to a
  fresh handler: no method raises, the stack depth after the prefix is the nesting depth
  of the prefix, which is never negative, and a start tag that comes next is rendered
  after a line break with as many indentation filler units as that depth (none for the
  root). After the whole sequence the stack is empty.
\<close>

theorem well_formed_stack_depth:
  assumes "well_formed es" and "prefix p es"
  shows "fst (deliver p initial) = Inr () \<and>
         int (length (elementStack (snd (deliver p initial)))) = depth p \<and>
         0 \<le> depth p \<and>
         (\<forall>name attributes.
            deliver (p @ [StartElement name attributes]) initial =
              (Inr (),
               (snd (deliver p initial))
                 \<lparr>elementStack := elementStack (snd (deliver p initial)) @ [name],
                  stdout := stdout (snd (deliver p initial)) @ NL @
                            indentation (nat (depth p)) @ RED @ name @ '' '' @ WHITE @
                            concat (map attribute_text (DAList.impl_of attributes)),
                  nLastWritePos := depth p\<rparr>)) \<and>
         fst (deliver es initial) = Inr () \<and>
         elementStack (snd (deliver es initial)) = []"
proof -
  obtain s where run: "deliver p initial = (Inr (), s)"
    and len: "int (length (elementStack s)) = int (length (elementStack initial)) + depth p"
    and nonneg: "0 \<le> depth p"
    using well_formed_prefix_run [OF assms] by blast
  from len have len': "int (length (elementStack s)) = depth p"
    by (simp add: initial_def)
  then have nat: "nat (depth p) = length (elementStack s)" by simp
  obtain t where whole: "deliver es initial = (Inr (), t)"
    and "elementStack t = elementStack initial"
    using well_formed_run [OF assms(1)] by blast
  then have empty: "elementStack t = []" by (simp add: initial_def)
  have "deliver (p @ [StartElement name attributes]) initial =
              (Inr (),
               s\<lparr>elementStack := elementStack s @ [name],
                  stdout := stdout s @ NL @
                            indentation (nat (depth p)) @ RED @ name @ '' '' @ WHITE @
                            concat (map attribute_text (DAList.impl_of attributes)),
                  nLastWritePos := depth p\<rparr>)" for name attributes
    by (simp add: deliver_append run and_then_def return_val_def startElement_run nat len')
  with run len' nonneg whole empty show ?thesis by simp
qed

theorem well_formed_stack_depth_witness:
  "well_formed [StartElement ''a'' DAList.empty, StartElement ''b'' DAList.empty,
                EndElement ''b'', EndElement ''a''] \<and>
   prefix [StartElement ''a'' DAList.empty]
          [StartElement ''a'' DAList.empty, StartElement ''b'' DAList.empty,
           EndElement ''b'', EndElement ''a''] \<and>
   depth [StartElement ''a'' DAList.empty] = 1 \<and>
   length (elementStack (snd (deliver [StartElement ''a'' DAList.empty] initial))) = 1 \<and>
   stdout (snd (deliver [StartElement ''a'' DAList.empty, StartElement ''b'' DAList.empty]
                  initial)) =
     NL @ RED @ ''a '' @ WHITE @ NL @ filler_unit @ RED @ ''b '' @ WHITE \<and>
   elementStack (snd (deliver [StartElement ''a'' DAList.empty, StartElement ''b'' DAList.empty,
                               EndElement ''b'', EndElement ''a''] initial)) = []"
proof -
  let ?p = "[StartElement ''a'' DAList.empty]"
  let ?es = "[StartElement ''a'' DAList.empty, StartElement ''b'' DAList.empty,
              EndElement ''b'', EndElement ''a'']"
  have inner: "well_formed [StartElement ''b'' DAList.empty, EndElement ''b'']"
    using wf_element [OF wf_empty wf_empty, of "''b''" DAList.empty] by simp
  have wf: "well_formed ?es"
    using wf_element [OF inner wf_empty, of "''a''" DAList.empty] by simp
  have pre: "prefix ?p ?es" by simp
  have d: "depth ?p = 1" by (simp add: depth_def)
  have first: "deliver ?p initial =
      (Inr (), \<lparr>charBuffer = [], elementStack = [''a''], nLastWritePos = 0,
                stdout = NL @ RED @ ''a '' @ WHITE\<rparr>)"
    by (simp add: and_then_def return_val_def startElement_run initial_def indentation_def
        DAList.empty.rep_eq)
  from well_formed_stack_depth [OF wf pre]
  have "int (length (elementStack (snd (deliver ?p initial)))) = depth ?p"
    and start: "deliver (?p @ [StartElement ''b'' DAList.empty]) initial =
              (Inr (),
               (snd (deliver ?p initial))
                 \<lparr>elementStack := elementStack (snd (deliver ?p initial)) @ [''b''],
                  stdout := stdout (snd (deliver ?p initial)) @ NL @
                            indentation (nat (depth ?p)) @ RED @ ''b'' @ '' '' @ WHITE @
                            concat (map attribute_text (DAList.impl_of DAList.empty)),
                  nLastWritePos := depth ?p\<rparr>)"
    and final: "elementStack (snd (deliver ?es initial)) = []"
    by blast+
  then have len: "length (elementStack (snd (deliver ?p initial))) = 1"
    by (simp add: d del: deliver.simps)
  have "stdout (snd (deliver (?p @ [StartElement ''b'' DAList.empty]) initial)) =
     NL @ RED @ ''a '' @ WHITE @ NL @ filler_unit @ RED @ ''b '' @ WHITE"
    unfolding start first
    by (simp add: d indentation_def DAList.empty.rep_eq)
  then have out: "stdout (snd (deliver [StartElement ''a'' DAList.empty,
        StartElement ''b'' DAList.empty] initial)) =
     NL @ RED @ ''a '' @ WHITE @ NL @ filler_unit @ RED @ ''b '' @ WHITE"
    by (simp del: deliver.simps)
  from wf pre d len out final show ?thesis by blast
qed

section \<open>A closing name that is not on top of the stack\<close>

lemma main_block_one_argument:
  "f \<noteq> ''-h'' \<Longrightarrow> f \<noteq> ''--help'' \<Longrightarrow>
   main_block rt [prog, f] s =
     (case main rt f s of
        (Inl e, s') \<Rightarrow> (Inl e, s')
      | (Inr u, s') \<Rightarrow> (Inl (SystemExit 0), s'\<lparr>stdout := stdout s' @ NL\<rparr>))"
  by (simp add: main_block_def and_then_def evaluate_def argv_item_def return_val_def
      py_print_def sys_stdout_write_def raise_def split: prod.splits sum.splits)

lemma main_handler_raises:
  "open_file rt f = Inr source \<Longrightarrow> sax_parse rt source = (events, failure) \<Longrightarrow>
   deliver events s = (Inl e, s') \<Longrightarrow>
   (\<forall>msg. e \<noteq> SAXParseException msg) \<Longrightarrow> (\<forall>msg. e \<noteq> OSError msg) \<Longrightarrow>
   main rt f s = (Inl e, s')"
  by (cases e)
    (simp_all add: main_def try_except_def and_then_def evaluate_def main_except_def
      xml_sax_parse_def raise_def)

text \<open>
  C5, at an input where the code departs from it. With \<open>a\<close> on the stack,
  \<open>popElementFromStack\<close> for \<open>b\<close> removes \<open>a\<close> and then raises \<open>TypeError\<close>: the
  format of the report has two conversions and receives one argument, so the report is
  never printed and \<open>sys.exit(4)\<close> is never reached. \<open>main\<close> does not catch the
  exception, and the process ends with status 1, having written the start tag of \<open>a\<close>
  only.
\<close>

theorem mismatched_pop_raises_TypeError:
  "popElementFromStack ''b'' (initial\<lparr>elementStack := [''a'']\<rparr>) = (Inl TypeError, initial) \<and>
   process fault_injected_runtime [''./xmlParse.py'', ''doc.xml''] =
     (1, NL @ RED @ ''a '' @ WHITE)"
proof -
  let ?events = "[StartElement ''a'' DAList.empty, EndElement ''b'']"
  let ?s = "\<lparr>charBuffer = [], elementStack = [], nLastWritePos = 0,
             stdout = NL @ RED @ ''a '' @ WHITE\<rparr>"
  have pop: "popElementFromStack ''b'' (initial\<lparr>elementStack := [''a'']\<rparr>) =
      (Inl TypeError, initial)"
    by (simp add: popElementFromStack_result initial_def)
  have "deliver ?events initial = (Inl TypeError, ?s)"
    by (simp add: and_then_def startElement_run endElement_def popElementFromStack_result
        initial_def indentation_def DAList.empty.rep_eq)
  then have "main fault_injected_runtime ''doc.xml'' initial = (Inl TypeError, ?s)"
    by (simp add: main_handler_raises [of _ _ "[]" ?events None] fault_injected_runtime_def)
  then have "process fault_injected_runtime [''./xmlParse.py'', ''doc.xml''] =
     (1, NL @ RED @ ''a '' @ WHITE)"
    by (simp add: process_def main_block_one_argument exit_status_def)
  with pop show ?thesis by simp
qed

section \<open>Command line and exit status\<close>

lemma usage_run:
  "usage exitFlag s = (Inl (SystemExit exitFlag), s\<lparr>stdout := stdout s @ usage_text\<rparr>)"
  by (simp add: usage_def and_then_def py_print_def sys_stdout_write_def raise_def
      usage_text_def)

lemma main_block_no_argument: "main_block rt [prog] s = (Inl IndexError, s)"
  by (simp add: main_block_def and_then_def evaluate_def argv_item_def)

lemma main_block_help:
  "1 < length argv \<Longrightarrow> argv ! 1 = ''-h'' \<or> argv ! 1 = ''--help'' \<Longrightarrow>
   main_block rt argv s = (Inl (SystemExit 0), s\<lparr>stdout := stdout s @ usage_text\<rparr>)"
  by (auto simp add: main_block_def and_then_def evaluate_def argv_item_def usage_run)

lemma main_block_count:
  "2 < length argv \<Longrightarrow> argv ! 1 \<noteq> ''-h'' \<Longrightarrow> argv ! 1 \<noteq> ''--help'' \<Longrightarrow>
   main_block rt argv s = (Inl (SystemExit 1), s\<lparr>stdout := stdout s @ usage_text\<rparr>)"
  by (simp add: main_block_def and_then_def evaluate_def argv_item_def usage_run return_val_def)

lemma main_open_fails:
  "open_file rt f = Inl (OSError msg) \<Longrightarrow>
   main rt f s =
     (Inl (SystemExit 3),
      s\<lparr>stdout := stdout s @ NL @ ''Failed to open '' @ f @ '': '' @ msg @ NL @ NL @ NL\<rparr>)"
  by (simp add: main_def try_except_def and_then_def evaluate_def main_except_def
      py_print_def sys_stdout_write_def raise_def)

lemma main_parse_fails:
  "open_file rt f = Inr source \<Longrightarrow>
   sax_parse rt source = (events, Some (SAXParseException msg)) \<Longrightarrow>
   deliver events s = (Inr (), s') \<Longrightarrow>
   main rt f s =
     (Inl (SystemExit 2),
      s'\<lparr>stdout := stdout s' @ NL @ ''Failed to parse '' @ f @
          ''. This appears not to be a valid xml document: '' @ msg @ NL @ NL @ NL\<rparr>)"
  by (simp add: main_def try_except_def and_then_def evaluate_def main_except_def
      xml_sax_parse_def py_print_def sys_stdout_write_def raise_def)

text \<open>
  C7, at an input where the code departs from it. With no argument after the script's
  name the first statement reads \<open>sys.argv[1]\<close> and raises \<open>IndexError\<close> before the
  argument count is tested: nothing is written to standard output, the usage text
  included, and the status 1 is that of an uncaught exception.
\<close>

theorem no_argument_raises_IndexError:
  "main_block rt [prog] initial = (Inl IndexError, initial) \<and> process rt [prog] = (1, [])"
  by (simp add: process_def main_block_no_argument exit_status_def initial_def)

text \<open>With more than one argument, the first of them no help flag, the claim holds.\<close>

lemma too_many_arguments_usage:
  "2 < length argv \<Longrightarrow> argv ! 1 \<noteq> ''-h'' \<Longrightarrow> argv ! 1 \<noteq> ''--help'' \<Longrightarrow>
   process rt argv = (1, usage_text)"
  by (simp add: process_def main_block_count exit_status_def initial_def)

text \<open>
  C8, as the code has it. The help flag is looked for in \<open>sys.argv[1]\<close> only, before
  the argument count is tested: every invocation whose first argument is \<open>-h\<close> or
  \<open>--help\<close> prints the usage text and exits with status 0, whatever follows.
\<close>

theorem help_as_first_argument:
  "1 < length argv \<Longrightarrow> argv ! 1 = ''-h'' \<or> argv ! 1 = ''--help'' \<Longrightarrow>
   process rt argv = (0, usage_text)"
  by (simp add: process_def main_block_help exit_status_def initial_def)

theorem help_as_first_argument_witness:
  "1 < length [''./xmlParse.py'', ''--help'', ''a.xml'', ''b.xml''] \<and>
   [''./xmlParse.py'', ''--help'', ''a.xml'', ''b.xml''] ! 1 = ''--help'' \<and>
   process no_file_runtime [''./xmlParse.py'', ''--help'', ''a.xml'', ''b.xml''] =
     (0, usage_text)"
  using help_as_first_argument
    [of "[''./xmlParse.py'', ''--help'', ''a.xml'', ''b.xml'']" no_file_runtime]
  by simp

text \<open>
  The claim as stated, for any invocation that includes \<open>--help\<close>, fails when the flag
  is not the first argument: the argument count decides, and the status is 1.
\<close>

theorem help_after_file_counterexample:
  "process no_file_runtime [''./xmlParse.py'', ''doc.xml'', ''--help''] = (1, usage_text)"
  by (simp add: process_def main_block_count exit_status_def initial_def)

text \<open>
  C9. With one argument that is not a help flag: when \<open>open\<close> raises \<open>OSError\<close> the
  script prints the file name with the error's message and exits with status 3; when the
  parser raises \<open>SAXParseException\<close>, after events the handler has rendered, the script
  prints the file name with the parser's message after them and exits with status 2.
  In both cases this is all the process does: \<open>open\<close> and the parser are not called
  again.
\<close>

theorem parse_and_open_errors:
  assumes "f \<noteq> ''-h''" and "f \<noteq> ''--help''"
  shows "(open_file rt f = Inl (OSError msg) \<longrightarrow>
            process rt [prog, f] =
              (3, NL @ ''Failed to open '' @ f @ '': '' @ msg @ NL @ NL @ NL)) \<and>
         (open_file rt f = Inr source \<and>
          sax_parse rt source = (events, Some (SAXParseException msg')) \<and>
          deliver events initial = (Inr (), s') \<longrightarrow>
            process rt [prog, f] =
              (2, stdout s' @ NL @ ''Failed to parse '' @ f @
                  ''. This appears not to be a valid xml document: '' @ msg' @ NL @ NL @ NL))"
  using assms
  by (auto simp add: process_def main_block_one_argument main_open_fails main_parse_fails
      exit_status_def initial_def)

theorem parse_and_open_errors_witness:
  "process no_file_runtime [''./xmlParse.py'', ''nofile.xml''] =
     (3, NL @ ''Failed to open nofile.xml: [Errno 2] No such file or directory'' @ NL @ NL @ NL) \<and>
   process mismatched_tag_runtime [''./xmlParse.py'', ''bad.xml''] =
     (2, NL @ RED @ ''a '' @ WHITE @ NL @ filler_unit @ RED @ ''b '' @ WHITE @ NL @
         ''Failed to parse bad.xml. This appears not to be a valid xml document: mismatched tag'' @
         NL @ NL @ NL)"
proof -
  let ?events = "[StartElement ''a'' DAList.empty, StartElement ''b'' DAList.empty]"
  let ?s = "\<lparr>charBuffer = [], elementStack = [''a'', ''b''], nLastWritePos = 1,
             stdout = NL @ RED @ ''a '' @ WHITE @ NL @ filler_unit @ RED @ ''b '' @ WHITE\<rparr>"
  have run: "deliver ?events initial = (Inr (), ?s)"
    by (simp add: and_then_def return_val_def startElement_run initial_def indentation_def
        DAList.empty.rep_eq)
  have "process no_file_runtime [''./xmlParse.py'', ''nofile.xml''] =
     (3, NL @ ''Failed to open nofile.xml: [Errno 2] No such file or directory'' @ NL @ NL @ NL)"
    using parse_and_open_errors [of "''nofile.xml''" no_file_runtime
        "''[Errno 2] No such file or directory''" "''./xmlParse.py''"]
    by (simp add: no_file_runtime_def)
  moreover have "process mismatched_tag_runtime [''./xmlParse.py'', ''bad.xml''] =
     (2, NL @ RED @ ''a '' @ WHITE @ NL @ filler_unit @ RED @ ''b '' @ WHITE @ NL @
         ''Failed to parse bad.xml. This appears not to be a valid xml document: mismatched tag'' @
         NL @ NL @ NL)"
    using parse_and_open_errors [of "''bad.xml''" mismatched_tag_runtime _ "''./xmlParse.py''"
        "''<a><b></a>''" ?events "''mismatched tag''" ?s] run
    by (simp add: mismatched_tag_runtime_def)
  ultimately show ?thesis by simp
qed

end
